theory Spec2Isabelle
  imports Main
begin

section \<open>Data model of src/index.ts\<close>

text \<open>
  The three parameter interfaces (lines 15-36). An optional field \<open>f?: T\<close> is a
  \<open>T option\<close>, \<open>None\<close> standing for \<open>undefined\<close>. The enumerated string types are plain
  strings: the handler casts the argument bag without checking it.
\<close>

record image_input =
  img_data :: string
  img_mimeType :: string

record GenerateImageParams =
  gen_prompt :: string
  gen_model :: "string option"
  gen_aspectRatio :: "string option"
  gen_imageSize :: "string option"
  gen_outputPath :: "string option"
  gen_referenceImages :: "image_input list option"

record EditImageParams =
  edit_prompt :: string
  edit_images :: "image_input list"
  edit_model :: "string option"
  edit_imageSize :: "string option"
  edit_outputPath :: "string option"

record DescribeImageParams =
  desc_images :: "image_input list"
  desc_prompt :: "string option"
  desc_model :: "string option"

text \<open>The model table (lines 39-45).\<close>

definition MODELS_PRO :: string where
  "MODELS_PRO = ''gemini-3-pro-image-preview''"

definition MODELS_FLASH :: string where
  "MODELS_FLASH = ''gemini-2.5-flash-preview-05-20''"

definition MODELS_LEGACY :: string where
  "MODELS_LEGACY = ''gemini-2.0-flash-exp''"

definition DEFAULT_MODEL :: string where
  "DEFAULT_MODEL = MODELS_PRO"

text \<open>
  What is handed to the upstream client: the model name, the generation configuration
  (absent for \<open>describe_image\<close>) and the ordered content parts.
\<close>

datatype request_part =
  InlineDataPart (rp_mimeType: string) (rp_data: string)
| TextPart string

record image_config =
  ic_aspectRatio :: "string option"
  ic_imageSize :: string

record generation_config =
  responseModalities :: "string list"
  imageConfig :: "image_config option"
  cfg_aspectRatio :: "string option"

record upstream_call =
  call_model :: string
  call_config :: "generation_config option"
  call_parts :: "request_part list"

text \<open>
  The upstream response as the handlers read it: \<open>candidates\<close>, \<open>content\<close>, \<open>parts\<close>,
  \<open>inlineData\<close>, \<open>text\<close> and \<open>mimeType\<close> may each be missing.
\<close>

record inline_data =
  blob_data :: string
  blob_mimeType :: "string option"

record response_part =
  inlineData :: "inline_data option"
  part_text :: "string option"

record response_content =
  parts :: "response_part list option"

record candidate =
  cand_content :: "response_content option"

record generate_response =
  candidates :: "candidate list option"

text \<open>
  A thrown value: an \<open>Error\<close> object with its message, or any other value, kept as
  the string \<open>String(error)\<close> gives for it.
\<close>

datatype thrown = Error string | NonError string

fun message :: "thrown \<Rightarrow> string" where
  "message (Error m) = m"
| "message (NonError s) = s"

text \<open>The result handed back to the host; a success result carries no \<open>isError\<close>.\<close>

datatype content_item =
  ImageContent (ci_data: string) (ci_mimeType: string)
| TextContent string

record tool_result =
  content :: "content_item list"
  isError :: "bool option"

text \<open>
  The effects of one call, in the order they are attempted, and the collaborators that
  are not part of this repository: the upstream client, \<open>response.text()\<close>, and the
  \<open>fs\<close>, \<open>path\<close> and \<open>Buffer\<close> functions of the platform. A collaborator that can throw
  returns the thrown value. The upstream client is used in two steps:
  \<open>getGenerativeModel\<close> builds the model object from the model name and the generation
  configuration, and may throw; \<open>generateContent\<close> of that object, which is determined
  by the name and the configuration, sends the content parts.
\<close>

datatype effect =
  GenerateContent upstream_call
| MkdirSync string
| WriteFileSync string string

record env =
  getGenerativeModel :: "string \<Rightarrow> generation_config option \<Rightarrow> thrown option"
  generateContent :: "upstream_call \<Rightarrow> thrown + generate_response"
  response_text :: "generate_response \<Rightarrow> thrown + string"
  dirname :: "string \<Rightarrow> string"
  existsSync :: "string \<Rightarrow> bool"
  mkdirSync :: "string \<Rightarrow> thrown option"
  writeFileSync :: "string \<Rightarrow> string \<Rightarrow> thrown option"
  base64_decode :: "string \<Rightarrow> string"

type_synonym 'a outcome = "(thrown + 'a) \<times> effect list"

section \<open>JavaScript truthiness\<close>

definition truthy :: "string \<Rightarrow> bool" where
  "truthy s \<longleftrightarrow> s \<noteq> []"

text \<open>\<open>x || d\<close> for a possibly missing string \<open>x\<close>.\<close>

definition or_default :: "string option \<Rightarrow> string \<Rightarrow> string" where
  "or_default x d = (case x of None \<Rightarrow> d | Some s \<Rightarrow> if truthy s then s else d)"

text \<open>\<open>x = d\<close> in a destructuring pattern: the default applies to \<open>undefined\<close> only.\<close>

definition with_default :: "'a option \<Rightarrow> 'a \<Rightarrow> 'a" where
  "with_default x d = (case x of None \<Rightarrow> d | Some v \<Rightarrow> v)"

section \<open>Building the upstream request\<close>

text \<open>generateImage, lines 266-279.\<close>

definition generate_config :: "string \<Rightarrow> string \<Rightarrow> string \<Rightarrow> generation_config" where
  "generate_config model aspectRatio imageSize =
    (if model = MODELS_PRO
     then \<lparr>responseModalities = [''IMAGE'', ''TEXT''],
           imageConfig = Some \<lparr>ic_aspectRatio = Some aspectRatio, ic_imageSize = imageSize\<rparr>,
           cfg_aspectRatio = None\<rparr>
     else \<lparr>responseModalities = [''IMAGE'', ''TEXT''],
           imageConfig = None,
           cfg_aspectRatio = Some aspectRatio\<rparr>)"

text \<open>editImage, lines 372-381.\<close>

definition edit_config :: "string \<Rightarrow> string \<Rightarrow> generation_config" where
  "edit_config model imageSize =
    (if model = MODELS_PRO
     then \<lparr>responseModalities = [''IMAGE'', ''TEXT''],
           imageConfig = Some \<lparr>ic_aspectRatio = None, ic_imageSize = imageSize\<rparr>,
           cfg_aspectRatio = None\<rparr>
     else \<lparr>responseModalities = [''IMAGE'', ''TEXT''],
           imageConfig = None,
           cfg_aspectRatio = None\<rparr>)"

definition inline_part :: "image_input \<Rightarrow> request_part" where
  "inline_part img = InlineDataPart (img_mimeType img) (img_data img)"

text \<open>generateImage, lines 287-301: the reference images, pushed one by one, then the prompt.\<close>

fun push_all :: "request_part list \<Rightarrow> image_input list \<Rightarrow> request_part list" where
  "push_all ps [] = ps"
| "push_all ps (img # imgs) = push_all (ps @ [inline_part img]) imgs"

definition generate_parts :: "image_input list option \<Rightarrow> string \<Rightarrow> request_part list" where
  "generate_parts referenceImages prompt =
    (let ps = (case referenceImages of
                 None \<Rightarrow> []
               | Some imgs \<Rightarrow> if length imgs > 0 then push_all [] imgs else [])
     in ps @ [TextPart prompt])"

text \<open>editImage, lines 389-395, and describeImage, lines 458-464.\<close>

definition edit_parts :: "image_input list \<Rightarrow> string \<Rightarrow> request_part list" where
  "edit_parts images prompt = map inline_part images @ [TextPart prompt]"

definition generate_call :: "GenerateImageParams \<Rightarrow> upstream_call" where
  "generate_call params =
    (let model = with_default (gen_model params) DEFAULT_MODEL;
         aspectRatio = with_default (gen_aspectRatio params) ''1:1'';
         imageSize = with_default (gen_imageSize params) ''1K''
     in \<lparr>call_model = model,
         call_config = Some (generate_config model aspectRatio imageSize),
         call_parts = generate_parts (gen_referenceImages params) (gen_prompt params)\<rparr>)"

definition edit_call :: "EditImageParams \<Rightarrow> upstream_call" where
  "edit_call params =
    (let model = with_default (edit_model params) DEFAULT_MODEL;
         imageSize = with_default (edit_imageSize params) ''1K''
     in \<lparr>call_model = model,
         call_config = Some (edit_config model imageSize),
         call_parts = edit_parts (edit_images params) (edit_prompt params)\<rparr>)"

definition describe_call :: "DescribeImageParams \<Rightarrow> upstream_call" where
  "describe_call params =
    \<lparr>call_model = with_default (desc_model params) MODELS_PRO,
     call_config = None,
     call_parts = edit_parts (desc_images params)
                    (with_default (desc_prompt params) ''Describe this image in detail.'')\<rparr>"

section \<open>Reading the upstream response\<close>

text \<open>
  Lines 307-315 and 400-408: the parts of the first candidate, or the error thrown.
\<close>

definition first_parts :: "generate_response \<Rightarrow> thrown + response_part list" where
  "first_parts response =
    (case candidates response of
       None \<Rightarrow> Inl (Error ''No response generated'')
     | Some [] \<Rightarrow> Inl (Error ''No response generated'')
     | Some (c # _) \<Rightarrow>
        (case cand_content c of
           None \<Rightarrow> Inl (Error ''No content in response'')
         | Some ct \<Rightarrow>
            (case parts ct of
               None \<Rightarrow> Inl (Error ''No content in response'')
             | Some ps \<Rightarrow> Inr ps)))"

text \<open>The local variables of the scan, with their initial values (lines 318-320).\<close>

record scan_vars =
  imageData :: "string option"
  mimeType :: string
  textResponse :: string

definition scan_init :: scan_vars where
  "scan_init = \<lparr>imageData = None, mimeType = ''image/png'', textResponse = ''''\<rparr>"

text \<open>The first \<open>if\<close> of the loop body (lines 323-326 and 414-417).\<close>

definition take_inline :: "scan_vars \<Rightarrow> response_part \<Rightarrow> scan_vars" where
  "take_inline s part =
    (case inlineData part of
       None \<Rightarrow> s
     | Some d \<Rightarrow> s\<lparr>imageData := Some (blob_data d),
                   mimeType := or_default (blob_mimeType d) ''image/png''\<rparr>)"

text \<open>The second \<open>if\<close> of the loop body of generateImage (lines 327-329).\<close>

definition take_text :: "scan_vars \<Rightarrow> response_part \<Rightarrow> scan_vars" where
  "take_text s part =
    (case part_text part of
       None \<Rightarrow> s
     | Some t \<Rightarrow> if truthy t then s\<lparr>textResponse := textResponse s @ t\<rparr> else s)"

definition generate_step :: "scan_vars \<Rightarrow> response_part \<Rightarrow> scan_vars" where
  "generate_step s part = take_text (take_inline s part) part"

definition generate_scan :: "response_part list \<Rightarrow> scan_vars" where
  "generate_scan ps = foldl generate_step scan_init ps"

text \<open>editImage has no text accumulator: its loop body is the first \<open>if\<close> alone.\<close>

definition edit_scan :: "response_part list \<Rightarrow> scan_vars" where
  "edit_scan ps = foldl take_inline scan_init ps"

text \<open>
  The test \<open>!imageData\<close> (lines 332 and 420) holds for \<open>null\<close> and for the empty
  string; \<open>usable\<close> gives the image data that passes it.
\<close>

definition usable :: "string option \<Rightarrow> string option" where
  "usable d = (case d of None \<Rightarrow> None | Some s \<Rightarrow> if truthy s then Some s else None)"

section \<open>Saving the image\<close>

text \<open>Lines 337-343 and 424-430, the same in both tools.\<close>

definition save_image :: "env \<Rightarrow> string option \<Rightarrow> string \<Rightarrow> thrown option \<times> effect list" where
  "save_image e outputPath img =
    (case outputPath of
       None \<Rightarrow> (None, [])
     | Some p \<Rightarrow>
        if \<not> truthy p then (None, [])
        else
          (let dir = dirname e p;
               bytes = base64_decode e img
           in if truthy dir \<and> \<not> existsSync e dir
              then (case mkdirSync e dir of
                      Some err \<Rightarrow> (Some err, [MkdirSync dir])
                    | None \<Rightarrow> (writeFileSync e p bytes, [MkdirSync dir, WriteFileSync p bytes]))
              else (writeFileSync e p bytes, [WriteFileSync p bytes])))"

section \<open>The three tools\<close>

definition generate_status :: "string option \<Rightarrow> string \<Rightarrow> string" where
  "generate_status outputPath imageSize =
    (case outputPath of
       None \<Rightarrow> ''Image generated successfully ('' @ imageSize @ '')''
     | Some p \<Rightarrow>
        if truthy p then ''Image generated ('' @ imageSize @ '') and saved to: '' @ p
        else ''Image generated successfully ('' @ imageSize @ '')'')"

definition edit_status :: "string option \<Rightarrow> string \<Rightarrow> string" where
  "edit_status outputPath imageSize =
    (case outputPath of
       None \<Rightarrow> ''Image edited successfully ('' @ imageSize @ '')''
     | Some p \<Rightarrow>
        if truthy p then ''Image edited ('' @ imageSize @ '') and saved to: '' @ p
        else ''Image edited successfully ('' @ imageSize @ '')'')"

text \<open>generateImage, from the response on (lines 304-359).\<close>

definition generate_finish ::
  "env \<Rightarrow> GenerateImageParams \<Rightarrow> generate_response \<Rightarrow> tool_result outcome" where
  "generate_finish e params response =
    (case first_parts response of
       Inl err \<Rightarrow> (Inl err, [])
     | Inr ps \<Rightarrow>
        (let s = generate_scan ps in
         case usable (imageData s) of
           None \<Rightarrow>
            (Inl (Error (''No image generated. Model response: '' @ textResponse s)), [])
         | Some img \<Rightarrow>
            (case save_image e (gen_outputPath params) img of
               (Some err, fx) \<Rightarrow> (Inl err, fx)
             | (None, fx) \<Rightarrow>
                (Inr \<lparr>content =
                       [ImageContent img (mimeType s),
                        TextContent (generate_status (gen_outputPath params)
                                       (with_default (gen_imageSize params) ''1K''))],
                      isError = None\<rparr>, fx))))"

definition generateImage :: "env \<Rightarrow> GenerateImageParams \<Rightarrow> tool_result outcome" where
  "generateImage e params =
    (let call = generate_call params in
     case getGenerativeModel e (call_model call) (call_config call) of
       Some err \<Rightarrow> (Inl err, [])
     | None \<Rightarrow>
        (case generateContent e call of
           Inl err \<Rightarrow> (Inl err, [GenerateContent call])
         | Inr response \<Rightarrow>
            (case generate_finish e params response of
               (r, fx) \<Rightarrow> (r, GenerateContent call # fx))))"

text \<open>editImage, from the response on (lines 398-446).\<close>

definition edit_finish ::
  "env \<Rightarrow> EditImageParams \<Rightarrow> generate_response \<Rightarrow> tool_result outcome" where
  "edit_finish e params response =
    (case first_parts response of
       Inl err \<Rightarrow> (Inl err, [])
     | Inr ps \<Rightarrow>
        (let s = edit_scan ps in
         case usable (imageData s) of
           None \<Rightarrow> (Inl (Error ''No edited image generated''), [])
         | Some img \<Rightarrow>
            (case save_image e (edit_outputPath params) img of
               (Some err, fx) \<Rightarrow> (Inl err, fx)
             | (None, fx) \<Rightarrow>
                (Inr \<lparr>content =
                       [ImageContent img (mimeType s),
                        TextContent (edit_status (edit_outputPath params)
                                       (with_default (edit_imageSize params) ''1K''))],
                      isError = None\<rparr>, fx))))"

definition editImage :: "env \<Rightarrow> EditImageParams \<Rightarrow> tool_result outcome" where
  "editImage e params =
    (let call = edit_call params in
     case getGenerativeModel e (call_model call) (call_config call) of
       Some err \<Rightarrow> (Inl err, [])
     | None \<Rightarrow>
        (case generateContent e call of
           Inl err \<Rightarrow> (Inl err, [GenerateContent call])
         | Inr response \<Rightarrow>
            (case edit_finish e params response of
               (r, fx) \<Rightarrow> (r, GenerateContent call # fx))))"

text \<open>describeImage (lines 449-473).\<close>

definition describeImage :: "env \<Rightarrow> DescribeImageParams \<Rightarrow> tool_result outcome" where
  "describeImage e params =
    (let call = describe_call params in
     case getGenerativeModel e (call_model call) (call_config call) of
       Some err \<Rightarrow> (Inl err, [])
     | None \<Rightarrow>
        (case generateContent e call of
           Inl err \<Rightarrow> (Inl err, [GenerateContent call])
         | Inr response \<Rightarrow>
            (case response_text e response of
               Inl err \<Rightarrow> (Inl err, [GenerateContent call])
             | Inr t \<Rightarrow> (Inr \<lparr>content = [TextContent t], isError = None\<rparr>,
                         [GenerateContent call]))))"

section \<open>The tool-call handler\<close>

text \<open>
  The request of a tool call (lines 227-252): the \<open>switch\<close> on the tool name, each
  branch with the argument bag cast to the parameter type of its tool, and the
  \<open>default\<close> branch with the unknown name.
\<close>

datatype call_tool_request =
  generate_image GenerateImageParams
| edit_image EditImageParams
| describe_image DescribeImageParams
| other_tool string

definition dispatch :: "env \<Rightarrow> call_tool_request \<Rightarrow> tool_result outcome" where
  "dispatch e request =
    (case request of
       generate_image params \<Rightarrow> generateImage e params
     | edit_image params \<Rightarrow> editImage e params
     | describe_image params \<Rightarrow> describeImage e params
     | other_tool name \<Rightarrow> (Inl (Error (''Unknown tool: '' @ name)), []))"

definition error_result :: "thrown \<Rightarrow> tool_result" where
  "error_result err =
    \<lparr>content = [TextContent (''Error: '' @ message err)], isError = Some True\<rparr>"

definition call_tool :: "env \<Rightarrow> call_tool_request \<Rightarrow> tool_result \<times> effect list" where
  "call_tool e request =
    (case dispatch e request of
       (Inl err, fx) \<Rightarrow> (error_result err, fx)
     | (Inr result, fx) \<Rightarrow> (result, fx))"

text \<open>The upstream invocations among the effects of a call.\<close>

fun upstream_calls :: "effect list \<Rightarrow> upstream_call list" where
  "upstream_calls [] = []"
| "upstream_calls (GenerateContent c # fx) = c # upstream_calls fx"
| "upstream_calls (_ # fx) = upstream_calls fx"

section \<open>Notions the properties are stated with\<close>

text \<open>The text of a response part, empty when the part has none.\<close>

definition text_of :: "response_part \<Rightarrow> string" where
  "text_of part = (case part_text part of None \<Rightarrow> [] | Some t \<Rightarrow> t)"

text \<open>All the text of a response, in the order of its parts.\<close>

definition all_text :: "response_part list \<Rightarrow> string" where
  "all_text ps = concat (map text_of ps)"

text \<open>The inline data of the last part that has any.\<close>

fun last_inline :: "response_part list \<Rightarrow> inline_data option" where
  "last_inline [] = None"
| "last_inline (p # ps) =
    (case last_inline ps of Some d \<Rightarrow> Some d | None \<Rightarrow> inlineData p)"

text \<open>
  The MIME type a part supplies, and the reading of the MIME type of a result as
  the one of the last inline part that supplied one, \<open>image/png\<close> when none did.
\<close>

definition supplied_mimeType :: "response_part \<Rightarrow> string option" where
  "supplied_mimeType part =
    (case inlineData part of
       None \<Rightarrow> None
     | Some d \<Rightarrow>
        (case blob_mimeType d of
           None \<Rightarrow> None
         | Some m \<Rightarrow> if truthy m then Some m else None))"

definition last_supplied_mimeType :: "response_part list \<Rightarrow> string" where
  "last_supplied_mimeType ps =
    (case rev (List.map_filter supplied_mimeType ps) of
       [] \<Rightarrow> ''image/png''
     | m # _ \<Rightarrow> m)"

section \<open>Sample collaborators and inputs\<close>

text \<open>A response whose first candidate has the given parts.\<close>

definition response_of :: "response_part list \<Rightarrow> generate_response" where
  "response_of ps = \<lparr>candidates = Some [\<lparr>cand_content = Some \<lparr>parts = Some ps\<rparr>\<rparr>]\<rparr>"

definition image_part :: "string \<Rightarrow> string option \<Rightarrow> response_part" where
  "image_part d m = \<lparr>inlineData = Some \<lparr>blob_data = d, blob_mimeType = m\<rparr>, part_text = None\<rparr>"

definition text_part :: "string \<Rightarrow> response_part" where
  "text_part t = \<lparr>inlineData = None, part_text = Some t\<rparr>"

text \<open>
  An upstream client that refuses to build a model without a name and answers every
  request with the same response, on a file system where every directory exists and
  every write succeeds.
\<close>

definition stub_env :: "generate_response \<Rightarrow> env" where
  "stub_env r =
    \<lparr>getGenerativeModel =
       (\<lambda>model _. if model = [] then Some (Error ''Must provide a model name.'') else None),
     generateContent = (\<lambda>_. Inr r),
     response_text = (\<lambda>_. Inr []),
     dirname = (\<lambda>_. ''.''),
     existsSync = (\<lambda>_. True),
     mkdirSync = (\<lambda>_. None),
     writeFileSync = (\<lambda>_ _. None),
     base64_decode = (\<lambda>s. s)\<rparr>"

text \<open>The same upstream on a file system that refuses every write.\<close>

definition readonly_env :: "generate_response \<Rightarrow> env" where
  "readonly_env r =
    (stub_env r)\<lparr>writeFileSync := (\<lambda>_ _. Some (Error ''EACCES: permission denied''))\<rparr>"

definition prompt_only :: "string \<Rightarrow> GenerateImageParams" where
  "prompt_only x =
    \<lparr>gen_prompt = x, gen_model = None, gen_aspectRatio = None, gen_imageSize = None,
     gen_outputPath = None, gen_referenceImages = None\<rparr>"

definition generate_of ::
  "string \<Rightarrow> string option \<Rightarrow> image_input list option \<Rightarrow> GenerateImageParams" where
  "generate_of x out refs = (prompt_only x)\<lparr>gen_outputPath := out, gen_referenceImages := refs\<rparr>"

definition edit_of :: "string \<Rightarrow> image_input list \<Rightarrow> string option \<Rightarrow> EditImageParams" where
  "edit_of x imgs out =
    \<lparr>edit_prompt = x, edit_images = imgs, edit_model = None, edit_imageSize = None,
     edit_outputPath = out\<rparr>"

definition sample_image :: image_input where
  "sample_image = \<lparr>img_data = ''QUJD'', img_mimeType = ''image/png''\<rparr>"

text \<open>Sample responses: one image; two images with text around them; a JPEG image
  followed by an image without MIME type; a refusal in text.\<close>

definition one_image :: "response_part list" where
  "one_image = [image_part ''QUJD'' (Some ''image/png'')]"

definition two_images :: "response_part list" where
  "two_images =
    [text_part ''Two drafts: ''] @ image_part ''QQ=='' (Some ''image/png'') #
    [text_part ''and ''] @ image_part ''Qg=='' (Some ''image/jpeg'') # [text_part ''done'']"

definition jpeg_then_bare :: "response_part list" where
  "jpeg_then_bare = [image_part ''QQ=='' (Some ''image/jpeg''), image_part ''Qg=='' None]"

definition refusal :: "response_part list" where
  "refusal = [text_part ''I cannot edit this photo.'']"

section \<open>Facts about the request builders and the scans\<close>

lemma push_all_append: "push_all ps imgs = ps @ map inline_part imgs"
  by (induction imgs arbitrary: ps) simp_all

lemma generate_parts_eq:
  "generate_parts refs x =
     map inline_part (case refs of None \<Rightarrow> [] | Some imgs \<Rightarrow> imgs) @ [TextPart x]"
  by (simp add: generate_parts_def push_all_append split: option.split)

lemma upstream_calls_save_image:
  "save_image e out img = (r, fx) \<Longrightarrow> upstream_calls fx = []"
  by (auto simp: save_image_def Let_def split: option.splits if_splits)

lemma upstream_calls_generate_finish:
  "generate_finish e params response = (r, fx) \<Longrightarrow> upstream_calls fx = []"
  by (auto simp: generate_finish_def Let_def split: sum.splits option.splits prod.splits
           dest: upstream_calls_save_image)

lemma upstream_calls_edit_finish:
  "edit_finish e params response = (r, fx) \<Longrightarrow> upstream_calls fx = []"
  by (auto simp: edit_finish_def Let_def split: sum.splits option.splits prod.splits
           dest: upstream_calls_save_image)

lemma snd_generateImage:
  "getGenerativeModel e (call_model (generate_call params)) (call_config (generate_call params))
     = None \<Longrightarrow>
   \<exists>fx. snd (generateImage e params) = GenerateContent (generate_call params) # fx
        \<and> upstream_calls fx = []"
  by (auto simp: generateImage_def Let_def split: sum.split prod.split
           dest: upstream_calls_generate_finish)

lemma generateImage_not_built:
  "getGenerativeModel e (call_model (generate_call params)) (call_config (generate_call params))
     = Some err \<Longrightarrow>
   generateImage e params = (Inl err, [])"
  by (simp add: generateImage_def Let_def)

lemma snd_editImage:
  "getGenerativeModel e (call_model (edit_call params)) (call_config (edit_call params))
     = None \<Longrightarrow>
   \<exists>fx. snd (editImage e params) = GenerateContent (edit_call params) # fx
        \<and> upstream_calls fx = []"
  by (auto simp: editImage_def Let_def split: sum.split prod.split
           dest: upstream_calls_edit_finish)

lemma editImage_not_built:
  "getGenerativeModel e (call_model (edit_call params)) (call_config (edit_call params))
     = Some err \<Longrightarrow>
   editImage e params = (Inl err, [])"
  by (simp add: editImage_def Let_def)

lemma snd_call_tool: "snd (call_tool e request) = snd (dispatch e request)"
  by (simp add: call_tool_def split: prod.split sum.split)

lemma foldl_generate_text:
  "textResponse (foldl generate_step s ps) = textResponse s @ all_text ps"
  by (induction ps arbitrary: s)
     (auto simp: all_text_def text_of_def generate_step_def take_text_def take_inline_def truthy_def
           split: option.split)

lemma foldl_generate_imageData:
  "imageData (foldl generate_step s ps) =
     (case last_inline ps of None \<Rightarrow> imageData s | Some d \<Rightarrow> Some (blob_data d))"
  by (induction ps arbitrary: s)
     (auto simp: generate_step_def take_text_def take_inline_def split: option.split)

lemma foldl_generate_mimeType:
  "mimeType (foldl generate_step s ps) =
     (case last_inline ps of None \<Rightarrow> mimeType s
      | Some d \<Rightarrow> or_default (blob_mimeType d) ''image/png'')"
  by (induction ps arbitrary: s)
     (auto simp: generate_step_def take_text_def take_inline_def split: option.split)

lemma foldl_edit_imageData:
  "imageData (foldl take_inline s ps) =
     (case last_inline ps of None \<Rightarrow> imageData s | Some d \<Rightarrow> Some (blob_data d))"
  by (induction ps arbitrary: s) (auto simp: take_inline_def split: option.split)

lemma foldl_edit_mimeType:
  "mimeType (foldl take_inline s ps) =
     (case last_inline ps of None \<Rightarrow> mimeType s
      | Some d \<Rightarrow> or_default (blob_mimeType d) ''image/png'')"
  by (induction ps arbitrary: s) (auto simp: take_inline_def split: option.split)

lemma foldl_edit_text: "textResponse (foldl take_inline s ps) = textResponse s"
  by (induction ps arbitrary: s) (auto simp: take_inline_def split: option.split)

lemma last_inline_append:
  "last_inline (ps @ qs) =
     (case last_inline qs of Some d \<Rightarrow> Some d | None \<Rightarrow> last_inline ps)"
  by (induction ps) (auto split: option.split)

lemma last_inline_no_inline:
  "\<forall>p \<in> set ps. inlineData p = None \<Longrightarrow> last_inline ps = None"
  by (induction ps) auto

lemma usable_Some: "usable d = Some img \<longleftrightarrow> d = Some img \<and> img \<noteq> []"
  by (auto simp: usable_def truthy_def split: option.split)

lemma usable_None: "usable d = None \<longleftrightarrow> d = None \<or> d = Some []"
  by (auto simp: usable_def truthy_def split: option.split)

lemma fst_call_tool:
  "fst (call_tool e request) =
     (case fst (dispatch e request) of Inl err \<Rightarrow> error_result err | Inr r \<Rightarrow> r)"
  by (simp add: call_tool_def split: prod.split sum.split)

lemma generateImage_returned:
  "getGenerativeModel e (call_model (generate_call gp)) (call_config (generate_call gp)) = None \<Longrightarrow>
   generateContent e (generate_call gp) = Inr response \<Longrightarrow>
   generateImage e gp =
     (fst (generate_finish e gp response),
      GenerateContent (generate_call gp) # snd (generate_finish e gp response))"
  by (simp add: generateImage_def Let_def split: prod.split)

lemma editImage_returned:
  "getGenerativeModel e (call_model (edit_call ep)) (call_config (edit_call ep)) = None \<Longrightarrow>
   generateContent e (edit_call ep) = Inr response \<Longrightarrow>
   editImage e ep =
     (fst (edit_finish e ep response),
      GenerateContent (edit_call ep) # snd (edit_finish e ep response))"
  by (simp add: editImage_def Let_def split: prod.split)

lemma generateImage_thrown:
  "getGenerativeModel e (call_model (generate_call gp)) (call_config (generate_call gp)) = None \<Longrightarrow>
   generateContent e (generate_call gp) = Inl err \<Longrightarrow>
   generateImage e gp = (Inl err, [GenerateContent (generate_call gp)])"
  by (simp add: generateImage_def Let_def)

lemma editImage_thrown:
  "getGenerativeModel e (call_model (edit_call ep)) (call_config (edit_call ep)) = None \<Longrightarrow>
   generateContent e (edit_call ep) = Inl err \<Longrightarrow>
   editImage e ep = (Inl err, [GenerateContent (edit_call ep)])"
  by (simp add: editImage_def Let_def)

lemma dispatch_generate: "dispatch e (generate_image gp) = generateImage e gp"
  by (simp add: dispatch_def)

lemma dispatch_edit: "dispatch e (edit_image ep) = editImage e ep"
  by (simp add: dispatch_def)

lemma upstream_calls_generate:
  "upstream_calls (snd (call_tool e (generate_image gp))) =
     (case getGenerativeModel e (call_model (generate_call gp)) (call_config (generate_call gp)) of
        None \<Rightarrow> [generate_call gp]
      | Some err \<Rightarrow> [])"
  using snd_generateImage [of e gp] generateImage_not_built [of e gp]
  by (auto simp: snd_call_tool dispatch_generate split: option.split)

lemma upstream_calls_edit:
  "upstream_calls (snd (call_tool e (edit_image ep))) =
     (case getGenerativeModel e (call_model (edit_call ep)) (call_config (edit_call ep)) of
        None \<Rightarrow> [edit_call ep]
      | Some err \<Rightarrow> [])"
  using snd_editImage [of e ep] editImage_not_built [of e ep]
  by (auto simp: snd_call_tool dispatch_edit split: option.split)

lemma call_parts_generate:
  "call_parts (generate_call gp) =
     map (\<lambda>img. InlineDataPart (img_mimeType img) (img_data img))
         (case gen_referenceImages gp of None \<Rightarrow> [] | Some imgs \<Rightarrow> imgs)
       @ [TextPart (gen_prompt gp)]"
  by (simp add: generate_call_def Let_def generate_parts_eq inline_part_def)

lemma call_parts_edit:
  "call_parts (edit_call ep) =
     map (\<lambda>img. InlineDataPart (img_mimeType img) (img_data img)) (edit_images ep)
       @ [TextPart (edit_prompt ep)]"
  by (simp add: edit_call_def Let_def edit_parts_def inline_part_def)

lemma first_parts_no_candidates:
  "candidates response = None \<or> candidates response = Some [] \<Longrightarrow>
   first_parts response = Inl (Error ''No response generated'')"
  by (auto simp: first_parts_def)

lemma generate_finish_first_parts_thrown:
  "first_parts response = Inl err \<Longrightarrow> generate_finish e gp response = (Inl err, [])"
  by (simp add: generate_finish_def)

lemma edit_finish_first_parts_thrown:
  "first_parts response = Inl err \<Longrightarrow> edit_finish e ep response = (Inl err, [])"
  by (simp add: edit_finish_def)

lemma call_tool_generate_returned:
  "getGenerativeModel e (call_model (generate_call gp)) (call_config (generate_call gp)) = None \<Longrightarrow>
   generateContent e (generate_call gp) = Inr response \<Longrightarrow>
   generate_finish e gp response = (r, fx) \<Longrightarrow>
   call_tool e (generate_image gp) =
     ((case r of Inl err \<Rightarrow> error_result err | Inr res \<Rightarrow> res),
      GenerateContent (generate_call gp) # fx)"
  by (simp add: call_tool_def dispatch_generate generateImage_returned split: sum.split)

lemma call_tool_edit_returned:
  "getGenerativeModel e (call_model (edit_call ep)) (call_config (edit_call ep)) = None \<Longrightarrow>
   generateContent e (edit_call ep) = Inr response \<Longrightarrow>
   edit_finish e ep response = (r, fx) \<Longrightarrow>
   call_tool e (edit_image ep) =
     ((case r of Inl err \<Rightarrow> error_result err | Inr res \<Rightarrow> res),
      GenerateContent (edit_call ep) # fx)"
  by (simp add: call_tool_def dispatch_edit editImage_returned split: sum.split)

lemma last_inline_two:
  assumes "inlineData B = Some b" and "\<forall>p \<in> set zs. inlineData p = None"
  shows "last_inline (pre @ B # zs) = Some b"
  using assms by (simp add: last_inline_append last_inline_no_inline)

lemma generate_scan_imageData:
  "imageData (generate_scan ps) =
     (case last_inline ps of None \<Rightarrow> None | Some d \<Rightarrow> Some (blob_data d))"
  by (simp add: generate_scan_def foldl_generate_imageData scan_init_def split: option.split)

lemma generate_scan_mimeType:
  "mimeType (generate_scan ps) =
     (case last_inline ps of None \<Rightarrow> ''image/png''
      | Some d \<Rightarrow> or_default (blob_mimeType d) ''image/png'')"
  by (simp add: generate_scan_def foldl_generate_mimeType scan_init_def split: option.split)

lemma generate_scan_textResponse: "textResponse (generate_scan ps) = all_text ps"
  by (simp add: generate_scan_def foldl_generate_text scan_init_def)

lemma edit_scan_imageData:
  "imageData (edit_scan ps) =
     (case last_inline ps of None \<Rightarrow> None | Some d \<Rightarrow> Some (blob_data d))"
  by (simp add: edit_scan_def foldl_edit_imageData scan_init_def split: option.split)

lemma edit_scan_mimeType:
  "mimeType (edit_scan ps) =
     (case last_inline ps of None \<Rightarrow> ''image/png''
      | Some d \<Rightarrow> or_default (blob_mimeType d) ''image/png'')"
  by (simp add: edit_scan_def foldl_edit_mimeType scan_init_def split: option.split)

lemma save_image_no_path: "save_image e None img = (None, [])"
  by (simp add: save_image_def)

lemma save_image_write_throws:
  assumes "p \<noteq> []" and "existsSync e (dirname e p)"
    and "writeFileSync e p (base64_decode e img) = Some err"
  shows "save_image e (Some p) img = (Some err, [WriteFileSync p (base64_decode e img)])"
  using assms by (simp add: save_image_def truthy_def Let_def)

lemma generate_finish_save_thrown:
  assumes "first_parts response = Inr ps"
    and "usable (imageData (generate_scan ps)) = Some img"
    and "save_image e (gen_outputPath gp) img = (Some err, fx)"
  shows "generate_finish e gp response = (Inl err, fx)"
  using assms by (simp add: generate_finish_def Let_def)

lemma edit_finish_save_thrown:
  assumes "first_parts response = Inr ps"
    and "usable (imageData (edit_scan ps)) = Some img"
    and "save_image e (edit_outputPath ep) img = (Some err, fx)"
  shows "edit_finish e ep response = (Inl err, fx)"
  using assms by (simp add: edit_finish_def Let_def)

lemma generate_finish_success:
  assumes "first_parts response = Inr ps"
    and "generate_finish e gp response = (Inr result, fx)"
  shows "\<exists>d t. last_inline ps = Some d
           \<and> content result =
               [ImageContent (blob_data d) (or_default (blob_mimeType d) ''image/png''),
                TextContent t]"
  using assms
  by (auto simp: generate_finish_def Let_def usable_Some generate_scan_imageData
        generate_scan_mimeType split: option.splits prod.splits)

lemma edit_finish_success:
  assumes "first_parts response = Inr ps"
    and "edit_finish e ep response = (Inr result, fx)"
  shows "\<exists>d t. last_inline ps = Some d
           \<and> content result =
               [ImageContent (blob_data d) (or_default (blob_mimeType d) ''image/png''),
                TextContent t]"
  using assms
  by (auto simp: edit_finish_def Let_def usable_Some edit_scan_imageData
        edit_scan_mimeType split: option.splits prod.splits)

lemma generate_image_no_image_error_carries_text:
  assumes "first_parts response = Inr ps" and "last_inline ps = None"
    and "getGenerativeModel e (call_model (generate_call gp)) (call_config (generate_call gp)) = None"
    and "generateContent e (generate_call gp) = Inr response"
  shows "call_tool e (generate_image gp) =
           (\<lparr>content = [TextContent (''Error: No image generated. Model response: '' @ all_text ps)],
             isError = Some True\<rparr>,
            [GenerateContent (generate_call gp)])"
proof -
  have "generate_finish e gp response =
          (Inl (Error (''No image generated. Model response: '' @ all_text ps)), [])"
    using assms(1,2)
    by (simp add: generate_finish_def Let_def generate_scan_imageData usable_def
          generate_scan_textResponse)
  from call_tool_generate_returned [OF assms(3,4) this] show ?thesis
    by (simp add: error_result_def)
qed

lemma edit_image_no_image_error_is_fixed:
  assumes "first_parts response = Inr ps" and "last_inline ps = None"
    and "getGenerativeModel e (call_model (edit_call ep)) (call_config (edit_call ep)) = None"
    and "generateContent e (edit_call ep) = Inr response"
  shows "call_tool e (edit_image ep) =
           (\<lparr>content = [TextContent ''Error: No edited image generated''], isError = Some True\<rparr>,
            [GenerateContent (edit_call ep)])"
proof -
  have "edit_finish e ep response = (Inl (Error ''No edited image generated''), [])"
    using assms(1,2) by (simp add: edit_finish_def Let_def edit_scan_imageData usable_def)
  from call_tool_edit_returned [OF assms(3,4) this] show ?thesis
    by (simp add: error_result_def)
qed

lemma generate_finish_usable_no_path:
  assumes "first_parts response = Inr ps" and "last_inline ps = Some d"
    and "blob_data d \<noteq> []" and "gen_outputPath gp = None"
  shows "generate_finish e gp response =
           (Inr \<lparr>content =
                   [ImageContent (blob_data d) (or_default (blob_mimeType d) ''image/png''),
                    TextContent (''Image generated successfully (''
                                   @ with_default (gen_imageSize gp) ''1K'' @ '')'')],
                 isError = None\<rparr>, [])"
  using assms
  by (simp add: generate_finish_def Let_def generate_scan_imageData generate_scan_mimeType
        usable_def truthy_def save_image_no_path generate_status_def)

lemma edit_finish_usable_no_path:
  assumes "first_parts response = Inr ps" and "last_inline ps = Some d"
    and "blob_data d \<noteq> []" and "edit_outputPath ep = None"
  shows "edit_finish e ep response =
           (Inr \<lparr>content =
                   [ImageContent (blob_data d) (or_default (blob_mimeType d) ''image/png''),
                    TextContent (''Image edited successfully (''
                                   @ with_default (edit_imageSize ep) ''1K'' @ '')'')],
                 isError = None\<rparr>, [])"
  using assms
  by (simp add: edit_finish_def Let_def edit_scan_imageData edit_scan_mimeType
        usable_def truthy_def save_image_no_path edit_status_def)

lemma call_tool_generate_not_built:
  "getGenerativeModel e (call_model (generate_call gp)) (call_config (generate_call gp))
     = Some err \<Longrightarrow>
   call_tool e (generate_image gp) = (error_result err, [])"
  by (simp add: call_tool_def dispatch_generate generateImage_not_built)

lemma call_tool_edit_not_built:
  "getGenerativeModel e (call_model (edit_call ep)) (call_config (edit_call ep))
     = Some err \<Longrightarrow>
   call_tool e (edit_image ep) = (error_result err, [])"
  by (simp add: call_tool_def dispatch_edit editImage_not_built)

text \<open>The definitions unfolded when a call is evaluated on sample inputs.\<close>

lemmas sample_defs =
  stub_env_def readonly_env_def response_of_def image_part_def text_part_def
  prompt_only_def generate_of_def edit_of_def sample_image_def one_image_def
  two_images_def jpeg_then_bare_def refusal_def

lemmas tool_defs =
  call_tool_def dispatch_def generateImage_def editImage_def generate_finish_def
  edit_finish_def first_parts_def generate_scan_def edit_scan_def generate_step_def
  take_inline_def take_text_def scan_init_def usable_def truthy_def or_default_def
  with_default_def save_image_def generate_status_def edit_status_def error_result_def
  generate_call_def edit_call_def generate_config_def edit_config_def generate_parts_def
  edit_parts_def inline_part_def DEFAULT_MODEL_def MODELS_PRO_def Let_def

section \<open>Properties of the tools\<close>

text \<open>
  C1, as stated. An \<open>edit_image\<close> call with \<open>images = []\<close> is not rejected: on an
  upstream that answers with one image the call succeeds, and the upstream has been
  invoked, with the prompt as the only content part. The bound \<open>minItems: 1\<close> is
  declared in the input schema of the tool (lines 136-137); \<open>editImage\<close> does not test it.
\<close>

theorem edit_image_empty_images_counterexample:
  "edit_images (edit_of ''make it blue'' [] None) = []
   \<and> call_tool (stub_env (response_of one_image)) (edit_image (edit_of ''make it blue'' [] None))
     = (\<lparr>content = [ImageContent ''QUJD'' ''image/png'',
                    TextContent ''Image edited successfully (1K)''],
         isError = None\<rparr>,
        [GenerateContent
          \<lparr>call_model = ''gemini-3-pro-image-preview'',
           call_config = Some \<lparr>responseModalities = [''IMAGE'', ''TEXT''],
                               imageConfig = Some \<lparr>ic_aspectRatio = None, ic_imageSize = ''1K''\<rparr>,
                               cfg_aspectRatio = None\<rparr>,
           call_parts = [TextPart ''make it blue'']\<rparr>])"
  by (simp add: one_image_def sample_defs tool_defs)

text \<open>
  C1, amended. An \<open>edit_image\<close> call with \<open>images = []\<close> is not stopped by any check on
  \<open>images\<close>: its content sequence is the prompt text part alone; whenever the model
  object is built (\<open>getGenerativeModel\<close> does not throw) the handler invokes the upstream
  exactly once, first of all its effects, with that sequence; and when the upstream
  then returns a response whose last inline part has non-empty data and no output path
  is supplied, the call returns the success result with that image.
\<close>

theorem edit_image_without_images_reaches_upstream:
  assumes "edit_images ep = []"
  shows "call_parts (edit_call ep) = [TextPart (edit_prompt ep)]
       \<and> (getGenerativeModel e (call_model (edit_call ep)) (call_config (edit_call ep)) = None \<longrightarrow>
            (\<exists>fx. snd (call_tool e (edit_image ep)) = GenerateContent (edit_call ep) # fx
                \<and> upstream_calls fx = []))
       \<and> (getGenerativeModel e (call_model (edit_call ep)) (call_config (edit_call ep)) = None
            \<and> generateContent e (edit_call ep) = Inr response
            \<and> first_parts response = Inr ps \<and> last_inline ps = Some d \<and> blob_data d \<noteq> []
            \<and> edit_outputPath ep = None \<longrightarrow>
          call_tool e (edit_image ep) =
            (\<lparr>content =
                [ImageContent (blob_data d) (or_default (blob_mimeType d) ''image/png''),
                 TextContent (''Image edited successfully (''
                                @ with_default (edit_imageSize ep) ''1K'' @ '')'')],
              isError = None\<rparr>,
             [GenerateContent (edit_call ep)]))"
proof -
  have sent: "call_parts (edit_call ep) = [TextPart (edit_prompt ep)]"
    using assms by (simp add: call_parts_edit)
  have once: "\<exists>fx. snd (call_tool e (edit_image ep)) = GenerateContent (edit_call ep) # fx
                \<and> upstream_calls fx = []"
    if "getGenerativeModel e (call_model (edit_call ep)) (call_config (edit_call ep)) = None"
    using snd_editImage [OF that] by (simp add: snd_call_tool dispatch_edit)
  have good: "call_tool e (edit_image ep) =
            (\<lparr>content =
                [ImageContent (blob_data d) (or_default (blob_mimeType d) ''image/png''),
                 TextContent (''Image edited successfully (''
                                @ with_default (edit_imageSize ep) ''1K'' @ '')'')],
              isError = None\<rparr>,
             [GenerateContent (edit_call ep)])"
    if built: "getGenerativeModel e (call_model (edit_call ep)) (call_config (edit_call ep)) = None"
      and up: "generateContent e (edit_call ep) = Inr response"
      and fp: "first_parts response = Inr ps" and li: "last_inline ps = Some d"
      and ne: "blob_data d \<noteq> []" and out: "edit_outputPath ep = None"
    using call_tool_edit_returned [OF built up edit_finish_usable_no_path [OF fp li ne out]]
    by simp
  from sent once good show ?thesis by blast
qed

theorem edit_image_without_images_reaches_upstream_witness:
  "edit_images (edit_of ''make it blue'' [] None) = []
   \<and> getGenerativeModel (stub_env (response_of one_image))
        (call_model (edit_call (edit_of ''make it blue'' [] None)))
        (call_config (edit_call (edit_of ''make it blue'' [] None))) = None
   \<and> generateContent (stub_env (response_of one_image)) (edit_call (edit_of ''make it blue'' [] None))
       = Inr (response_of one_image)
   \<and> first_parts (response_of one_image) = Inr one_image
   \<and> last_inline one_image = Some \<lparr>blob_data = ''QUJD'', blob_mimeType = Some ''image/png''\<rparr>
   \<and> edit_outputPath (edit_of ''make it blue'' [] None) = None
   \<and> call_parts (edit_call (edit_of ''make it blue'' [] None)) = [TextPart ''make it blue'']
   \<and> (\<exists>fx. snd (call_tool (stub_env (response_of one_image))
                   (edit_image (edit_of ''make it blue'' [] None)))
             = GenerateContent (edit_call (edit_of ''make it blue'' [] None)) # fx
           \<and> upstream_calls fx = [])
   \<and> call_tool (stub_env (response_of one_image)) (edit_image (edit_of ''make it blue'' [] None)) =
       (\<lparr>content = [ImageContent ''QUJD'' ''image/png'',
                     TextContent ''Image edited successfully (1K)''],
          isError = None\<rparr>,
        [GenerateContent (edit_call (edit_of ''make it blue'' [] None))])"
  using edit_image_without_images_reaches_upstream
          [of "edit_of ''make it blue'' [] None" "stub_env (response_of one_image)"
              "response_of one_image" one_image
              "\<lparr>blob_data = ''QUJD'', blob_mimeType = Some ''image/png''\<rparr>"]
  by (simp add: edit_of_def stub_env_def one_image_def response_of_def image_part_def
        first_parts_def edit_call_def with_default_def DEFAULT_MODEL_def MODELS_PRO_def
        or_default_def truthy_def Let_def)

text \<open>
  C2, as stated. A \<open>generate_image\<close> call with 15 reference images is not rejected: on
  an upstream that answers with one image the call succeeds, and the upstream has
  received the 15 images followed by the prompt. The bound \<open>maxItems: 14\<close> is declared
  in the input schema of the tool (line 102); \<open>generateImage\<close> does not test it.
\<close>

theorem fifteen_reference_images_counterexample:
  "length (replicate 15 sample_image) = 15
   \<and> call_tool (stub_env (response_of one_image))
        (generate_image (generate_of ''a kite'' None (Some (replicate 15 sample_image))))
     = (\<lparr>content = [ImageContent ''QUJD'' ''image/png'',
                    TextContent ''Image generated successfully (1K)''],
         isError = None\<rparr>,
        [GenerateContent
          \<lparr>call_model = ''gemini-3-pro-image-preview'',
           call_config = Some \<lparr>responseModalities = [''IMAGE'', ''TEXT''],
                               imageConfig = Some \<lparr>ic_aspectRatio = Some ''1:1'',
                                                   ic_imageSize = ''1K''\<rparr>,
                               cfg_aspectRatio = None\<rparr>,
           call_parts = replicate 15 (InlineDataPart ''image/png'' ''QUJD'')
                          @ [TextPart ''a kite'']\<rparr>])"
proof -
  have parts15: "generate_parts (Some (replicate 15 sample_image)) ''a kite''
          = replicate 15 (InlineDataPart ''image/png'' ''QUJD'') @ [TextPart ''a kite'']"
    by (simp add: generate_parts_eq inline_part_def sample_image_def)
  show ?thesis
    by (simp add: one_image_def sample_defs call_tool_def dispatch_def generateImage_def
          generate_finish_def first_parts_def generate_scan_def generate_step_def
          take_inline_def take_text_def scan_init_def usable_def truthy_def or_default_def
          with_default_def save_image_def generate_status_def generate_call_def
          generate_config_def DEFAULT_MODEL_def MODELS_PRO_def Let_def
          parts15 [unfolded sample_image_def])
qed

text \<open>
  C2, amended. A \<open>generate_image\<close> call with a \<open>referenceImages\<close> sequence of any
  length (14, 15 or any other) is not stopped by any check on its length: the content
  sequence holds one inline part with the MIME type and the data of each reference
  image, in order, followed by the prompt; whenever the model object is built
  (\<open>getGenerativeModel\<close> does not throw) the handler invokes the upstream exactly once,
  first of all its effects, with that sequence; and when the upstream then returns a
  response whose last inline part has non-empty data and no output path is supplied,
  the call returns the success result with that image.
\<close>

theorem reference_images_of_any_length_reach_upstream:
  assumes "gen_referenceImages gp = Some imgs"
  shows "call_parts (generate_call gp) =
           map (\<lambda>img. InlineDataPart (img_mimeType img) (img_data img)) imgs
             @ [TextPart (gen_prompt gp)]
       \<and> length (call_parts (generate_call gp)) = length imgs + 1
       \<and> (getGenerativeModel e (call_model (generate_call gp)) (call_config (generate_call gp))
             = None \<longrightarrow>
            (\<exists>fx. snd (call_tool e (generate_image gp)) = GenerateContent (generate_call gp) # fx
                \<and> upstream_calls fx = []))
       \<and> (getGenerativeModel e (call_model (generate_call gp)) (call_config (generate_call gp))
             = None
            \<and> generateContent e (generate_call gp) = Inr response
            \<and> first_parts response = Inr ps \<and> last_inline ps = Some d \<and> blob_data d \<noteq> []
            \<and> gen_outputPath gp = None \<longrightarrow>
          call_tool e (generate_image gp) =
            (\<lparr>content =
                [ImageContent (blob_data d) (or_default (blob_mimeType d) ''image/png''),
                 TextContent (''Image generated successfully (''
                                @ with_default (gen_imageSize gp) ''1K'' @ '')'')],
              isError = None\<rparr>,
             [GenerateContent (generate_call gp)]))"
proof -
  have sent: "call_parts (generate_call gp) =
           map (\<lambda>img. InlineDataPart (img_mimeType img) (img_data img)) imgs
             @ [TextPart (gen_prompt gp)]"
    using assms by (simp add: call_parts_generate)
  then have count: "length (call_parts (generate_call gp)) = length imgs + 1"
    by simp
  have once: "\<exists>fx. snd (call_tool e (generate_image gp)) = GenerateContent (generate_call gp) # fx
                \<and> upstream_calls fx = []"
    if "getGenerativeModel e (call_model (generate_call gp)) (call_config (generate_call gp)) = None"
    using snd_generateImage [OF that] by (simp add: snd_call_tool dispatch_generate)
  have good: "call_tool e (generate_image gp) =
            (\<lparr>content =
                [ImageContent (blob_data d) (or_default (blob_mimeType d) ''image/png''),
                 TextContent (''Image generated successfully (''
                                @ with_default (gen_imageSize gp) ''1K'' @ '')'')],
              isError = None\<rparr>,
             [GenerateContent (generate_call gp)])"
    if built: "getGenerativeModel e (call_model (generate_call gp)) (call_config (generate_call gp))
                 = None"
      and up: "generateContent e (generate_call gp) = Inr response"
      and fp: "first_parts response = Inr ps" and li: "last_inline ps = Some d"
      and ne: "blob_data d \<noteq> []" and out: "gen_outputPath gp = None"
    using call_tool_generate_returned [OF built up generate_finish_usable_no_path [OF fp li ne out]]
    by simp
  from sent count once good show ?thesis by blast
qed

theorem reference_images_of_any_length_reach_upstream_witness:
  "gen_referenceImages (generate_of ''a kite'' None (Some (replicate 15 sample_image)))
     = Some (replicate 15 sample_image)
   \<and> getGenerativeModel (stub_env (response_of one_image))
        (call_model (generate_call (generate_of ''a kite'' None (Some (replicate 15 sample_image)))))
        (call_config (generate_call (generate_of ''a kite'' None (Some (replicate 15 sample_image)))))
       = None
   \<and> generateContent (stub_env (response_of one_image))
        (generate_call (generate_of ''a kite'' None (Some (replicate 15 sample_image))))
       = Inr (response_of one_image)
   \<and> first_parts (response_of one_image) = Inr one_image
   \<and> last_inline one_image = Some \<lparr>blob_data = ''QUJD'', blob_mimeType = Some ''image/png''\<rparr>
   \<and> gen_outputPath (generate_of ''a kite'' None (Some (replicate 15 sample_image))) = None
   \<and> call_parts (generate_call (generate_of ''a kite'' None (Some (replicate 15 sample_image))))
       = replicate 15 (InlineDataPart ''image/png'' ''QUJD'') @ [TextPart ''a kite'']
   \<and> length (call_parts
         (generate_call (generate_of ''a kite'' None (Some (replicate 15 sample_image))))) = 16
   \<and> (\<exists>fx. snd (call_tool (stub_env (response_of one_image))
                   (generate_image (generate_of ''a kite'' None (Some (replicate 15 sample_image)))))
             = GenerateContent
                 (generate_call (generate_of ''a kite'' None (Some (replicate 15 sample_image)))) # fx
           \<and> upstream_calls fx = [])
   \<and> call_tool (stub_env (response_of one_image))
        (generate_image (generate_of ''a kite'' None (Some (replicate 15 sample_image)))) =
       (\<lparr>content = [ImageContent ''QUJD'' ''image/png'',
                     TextContent ''Image generated successfully (1K)''],
          isError = None\<rparr>,
        [GenerateContent
           (generate_call (generate_of ''a kite'' None (Some (replicate 15 sample_image))))])"
proof -
  have built: "getGenerativeModel (stub_env (response_of one_image))
        (call_model (generate_call (generate_of ''a kite'' None (Some (replicate 15 sample_image)))))
        (call_config (generate_call (generate_of ''a kite'' None (Some (replicate 15 sample_image)))))
       = None"
    by (simp add: stub_env_def generate_call_def generate_of_def prompt_only_def
          with_default_def DEFAULT_MODEL_def MODELS_PRO_def Let_def)
  have li: "last_inline one_image = Some \<lparr>blob_data = ''QUJD'', blob_mimeType = Some ''image/png''\<rparr>"
    by (simp add: one_image_def image_part_def)
  have fp: "first_parts (response_of one_image) = Inr one_image"
    by (simp add: first_parts_def response_of_def)
  show ?thesis
    using reference_images_of_any_length_reach_upstream
          [of "generate_of ''a kite'' None (Some (replicate 15 sample_image))"
              "replicate 15 sample_image" "stub_env (response_of one_image)"
              "response_of one_image" one_image
              "\<lparr>blob_data = ''QUJD'', blob_mimeType = Some ''image/png''\<rparr>"]
          built li fp
    by (simp add: generate_of_def prompt_only_def stub_env_def sample_image_def
          with_default_def or_default_def truthy_def)
qed

text \<open>
  C3, as stated. On a file system that refuses the write, a \<open>generate_image\<close> call
  with an output path whose upstream response holds a usable image returns an error
  result: \<open>writeFileSync\<close> throws inside \<open>generateImage\<close> (line 342), nothing catches
  it there, and the \<open>catch\<close> of the handler (lines 245-251) turns it into the result.
\<close>

theorem write_failure_counterexample:
  "usable (imageData (generate_scan one_image)) = Some ''QUJD''
   \<and> call_tool (readonly_env (response_of one_image))
        (generate_image (generate_of ''a kite'' (Some ''out/kite.png'') None))
     = (\<lparr>content = [TextContent ''Error: EACCES: permission denied''], isError = Some True\<rparr>,
        [GenerateContent (generate_call (generate_of ''a kite'' (Some ''out/kite.png'') None)),
         WriteFileSync ''out/kite.png'' ''QUJD''])"
  by (simp add: one_image_def sample_defs call_tool_def dispatch_def generateImage_def
        generate_finish_def first_parts_def generate_scan_def generate_step_def
        take_inline_def take_text_def scan_init_def usable_def truthy_def or_default_def
        save_image_def error_result_def Let_def generate_call_def with_default_def
        DEFAULT_MODEL_def MODELS_PRO_def)

text \<open>
  C3, amended. For \<open>generate_image\<close> and \<open>edit_image\<close>, when the upstream response holds
  a usable image and saving it to the supplied output path throws (\<open>mkdirSync\<close> or
  \<open>writeFileSync\<close>), the call returns the error result of the handler: \<open>isError\<close> is
  true and the content is the single text part \<open>Error:\<close> followed by the message of
  what was thrown; the image is not returned. (By \<open>save_image_write_throws\<close>, saving
  throws whenever the path is not empty, its directory exists and the write throws.)
\<close>

theorem write_failure_gives_error_result:
  assumes "first_parts response = Inr ps"
    and "save_image e out img = (Some err, fx)"
  shows "(getGenerativeModel e (call_model (generate_call gp)) (call_config (generate_call gp)) = None
            \<and> generateContent e (generate_call gp) = Inr response
            \<and> usable (imageData (generate_scan ps)) = Some img \<and> gen_outputPath gp = out \<longrightarrow>
          call_tool e (generate_image gp)
            = (\<lparr>content = [TextContent (''Error: '' @ message err)], isError = Some True\<rparr>,
               GenerateContent (generate_call gp) # fx))
       \<and> (getGenerativeModel e (call_model (edit_call ep)) (call_config (edit_call ep)) = None
            \<and> generateContent e (edit_call ep) = Inr response
            \<and> usable (imageData (edit_scan ps)) = Some img \<and> edit_outputPath ep = out \<longrightarrow>
          call_tool e (edit_image ep)
            = (\<lparr>content = [TextContent (''Error: '' @ message err)], isError = Some True\<rparr>,
               GenerateContent (edit_call ep) # fx))"
proof -
  have gen: "call_tool e (generate_image gp)
            = (\<lparr>content = [TextContent (''Error: '' @ message err)], isError = Some True\<rparr>,
               GenerateContent (generate_call gp) # fx)"
    if built: "getGenerativeModel e (call_model (generate_call gp)) (call_config (generate_call gp)) = None"
      and up: "generateContent e (generate_call gp) = Inr response"
      and ok: "usable (imageData (generate_scan ps)) = Some img"
      and path: "gen_outputPath gp = out"
  proof -
    have "generate_finish e gp response = (Inl err, fx)"
      using assms(1) ok assms(2) [folded path] by (rule generate_finish_save_thrown)
    from call_tool_generate_returned [OF built up this] show ?thesis
      by (simp add: error_result_def)
  qed
  have edit: "call_tool e (edit_image ep)
            = (\<lparr>content = [TextContent (''Error: '' @ message err)], isError = Some True\<rparr>,
               GenerateContent (edit_call ep) # fx)"
    if built: "getGenerativeModel e (call_model (edit_call ep)) (call_config (edit_call ep)) = None"
      and up: "generateContent e (edit_call ep) = Inr response"
      and ok: "usable (imageData (edit_scan ps)) = Some img"
      and path: "edit_outputPath ep = out"
  proof -
    have "edit_finish e ep response = (Inl err, fx)"
      using assms(1) ok assms(2) [folded path] by (rule edit_finish_save_thrown)
    from call_tool_edit_returned [OF built up this] show ?thesis
      by (simp add: error_result_def)
  qed
  from gen edit show ?thesis by blast
qed

theorem write_failure_gives_error_result_witness:
  "first_parts (response_of one_image) = Inr one_image
   \<and> save_image (readonly_env (response_of one_image)) (Some ''out/kite.png'') ''QUJD''
       = (Some (Error ''EACCES: permission denied''), [WriteFileSync ''out/kite.png'' ''QUJD''])
   \<and> getGenerativeModel (readonly_env (response_of one_image))
        (call_model (generate_call (generate_of ''a kite'' (Some ''out/kite.png'') None)))
        (call_config (generate_call (generate_of ''a kite'' (Some ''out/kite.png'') None))) = None
   \<and> generateContent (readonly_env (response_of one_image))
        (generate_call (generate_of ''a kite'' (Some ''out/kite.png'') None))
       = Inr (response_of one_image)
   \<and> usable (imageData (generate_scan one_image)) = Some ''QUJD''
   \<and> gen_outputPath (generate_of ''a kite'' (Some ''out/kite.png'') None) = Some ''out/kite.png''
   \<and> call_tool (readonly_env (response_of one_image))
        (generate_image (generate_of ''a kite'' (Some ''out/kite.png'') None))
       = (\<lparr>content = [TextContent ''Error: EACCES: permission denied''], isError = Some True\<rparr>,
          [GenerateContent (generate_call (generate_of ''a kite'' (Some ''out/kite.png'') None)),
           WriteFileSync ''out/kite.png'' ''QUJD''])
   \<and> getGenerativeModel (readonly_env (response_of one_image))
        (call_model (edit_call (edit_of ''make it blue'' [sample_image] (Some ''out/kite.png''))))
        (call_config (edit_call (edit_of ''make it blue'' [sample_image] (Some ''out/kite.png''))))
       = None
   \<and> generateContent (readonly_env (response_of one_image))
        (edit_call (edit_of ''make it blue'' [sample_image] (Some ''out/kite.png'')))
       = Inr (response_of one_image)
   \<and> usable (imageData (edit_scan one_image)) = Some ''QUJD''
   \<and> edit_outputPath (edit_of ''make it blue'' [sample_image] (Some ''out/kite.png''))
       = Some ''out/kite.png''
   \<and> call_tool (readonly_env (response_of one_image))
        (edit_image (edit_of ''make it blue'' [sample_image] (Some ''out/kite.png'')))
       = (\<lparr>content = [TextContent ''Error: EACCES: permission denied''], isError = Some True\<rparr>,
          [GenerateContent (edit_call (edit_of ''make it blue'' [sample_image] (Some ''out/kite.png''))),
           WriteFileSync ''out/kite.png'' ''QUJD''])"
  using write_failure_gives_error_result
          [of "response_of one_image" one_image "readonly_env (response_of one_image)"
              "Some ''out/kite.png''" "''QUJD''" "Error ''EACCES: permission denied''"
              "[WriteFileSync ''out/kite.png'' ''QUJD'']"
              "generate_of ''a kite'' (Some ''out/kite.png'') None"
              "edit_of ''make it blue'' [sample_image] (Some ''out/kite.png'')"]
  by (simp add: one_image_def readonly_env_def stub_env_def response_of_def image_part_def
        generate_of_def prompt_only_def edit_of_def first_parts_def save_image_def truthy_def
        Let_def generate_scan_def edit_scan_def generate_step_def take_inline_def take_text_def
        scan_init_def usable_def generate_call_def edit_call_def with_default_def
        DEFAULT_MODEL_def MODELS_PRO_def)

text \<open>
  C4. When the response has no inline part, \<open>generate_image\<close> fails with the message
  \<open>No image generated. Model response:\<close> followed by the text of the response, but
  \<open>edit_image\<close> fails with the fixed message \<open>No edited image generated\<close>: its scan has
  no text accumulator, and the text in which the model explains a refusal is lost. The
  theorem evaluates both tools on the same refusal.
\<close>

theorem edit_image_refusal_text_dropped:
  "last_inline refusal = None
   \<and> all_text refusal = ''I cannot edit this photo.''
   \<and> call_tool (stub_env (response_of refusal))
        (edit_image (edit_of ''make it blue'' [sample_image] None))
     = (\<lparr>content = [TextContent ''Error: No edited image generated''], isError = Some True\<rparr>,
        [GenerateContent (edit_call (edit_of ''make it blue'' [sample_image] None))])
   \<and> call_tool (stub_env (response_of refusal)) (generate_image (prompt_only ''a kite''))
     = (\<lparr>content = [TextContent
                      ''Error: No image generated. Model response: I cannot edit this photo.''],
         isError = Some True\<rparr>,
        [GenerateContent (generate_call (prompt_only ''a kite''))])"
  by (simp add: refusal_def all_text_def text_of_def stub_env_def response_of_def text_part_def
        edit_of_def prompt_only_def call_tool_def dispatch_def generateImage_def editImage_def
        generate_finish_def edit_finish_def first_parts_def generate_scan_def edit_scan_def
        generate_step_def take_inline_def take_text_def scan_init_def usable_def truthy_def
        error_result_def Let_def generate_call_def edit_call_def with_default_def
        DEFAULT_MODEL_def MODELS_PRO_def)

text \<open>
  C5. When the parts of the first candidate hold two inline parts \<open>A\<close> then \<open>B\<close>, with
  parts without inline data before, between and after them, the scan of
  \<open>generate_image\<close> ends with the data of \<open>B\<close> as image data and with the texts of all
  parts, concatenated in their order, as text response; and when the data of \<open>B\<close> is not
  empty and no output path is given, the image of the result is the data of \<open>B\<close>.
\<close>

theorem last_inline_part_wins:
  assumes "inlineData A = Some a" and "inlineData B = Some b"
    and "\<forall>p \<in> set (xs @ ys @ zs). inlineData p = None"
    and "ps = xs @ A # ys @ B # zs"
  shows "imageData (generate_scan ps) = Some (blob_data b)
       \<and> textResponse (generate_scan ps) = all_text ps
       \<and> (getGenerativeModel e (call_model (generate_call gp)) (call_config (generate_call gp)) = None
            \<and> generateContent e (generate_call gp) = Inr response \<and> first_parts response = Inr ps
            \<and> blob_data b \<noteq> [] \<and> gen_outputPath gp = None \<longrightarrow>
          (\<exists>m t. call_tool e (generate_image gp) =
             (\<lparr>content = [ImageContent (blob_data b) m, TextContent t], isError = None\<rparr>,
              [GenerateContent (generate_call gp)])))"
proof -
  have "\<forall>p \<in> set zs. inlineData p = None"
    using assms(3) by simp
  then have last: "last_inline ps = Some b"
    unfolding assms(4) using assms(2) last_inline_two [of B b zs "xs @ A # ys"] by simp
  have img: "imageData (generate_scan ps) = Some (blob_data b)"
    by (simp add: generate_scan_imageData last)
  have acc: "textResponse (generate_scan ps) = all_text ps"
    by (rule generate_scan_textResponse)
  have res: "\<exists>m t. call_tool e (generate_image gp) =
             (\<lparr>content = [ImageContent (blob_data b) m, TextContent t], isError = None\<rparr>,
              [GenerateContent (generate_call gp)])"
    if built: "getGenerativeModel e (call_model (generate_call gp)) (call_config (generate_call gp)) = None"
      and up: "generateContent e (generate_call gp) = Inr response"
      and fp: "first_parts response = Inr ps"
      and ne: "blob_data b \<noteq> []" and out: "gen_outputPath gp = None"
  proof -
    have "generate_finish e gp response =
            (Inr \<lparr>content = [ImageContent (blob_data b) (mimeType (generate_scan ps)),
                              TextContent (generate_status None
                                             (with_default (gen_imageSize gp) ''1K''))],
                   isError = None\<rparr>, [])"
      using ne by (simp add: generate_finish_def fp img out save_image_no_path usable_def truthy_def)
    from call_tool_generate_returned [OF built up this] show ?thesis by simp
  qed
  from img acc res show ?thesis by blast
qed

theorem last_inline_part_wins_witness:
  "inlineData (image_part ''QQ=='' (Some ''image/png''))
     = Some \<lparr>blob_data = ''QQ=='', blob_mimeType = Some ''image/png''\<rparr>
   \<and> inlineData (image_part ''Qg=='' (Some ''image/jpeg''))
     = Some \<lparr>blob_data = ''Qg=='', blob_mimeType = Some ''image/jpeg''\<rparr>
   \<and> list_all (\<lambda>p. inlineData p = None)
         ([text_part ''Two drafts: ''] @ [text_part ''and ''] @ [text_part ''done''])
   \<and> getGenerativeModel (stub_env (response_of two_images))
        (call_model (generate_call (prompt_only ''a kite'')))
        (call_config (generate_call (prompt_only ''a kite''))) = None
   \<and> generateContent (stub_env (response_of two_images)) (generate_call (prompt_only ''a kite''))
       = Inr (response_of two_images)
   \<and> first_parts (response_of two_images) = Inr two_images
   \<and> gen_outputPath (prompt_only ''a kite'') = None
   \<and> imageData (generate_scan two_images) = Some ''Qg==''
   \<and> textResponse (generate_scan two_images) = ''Two drafts: and done''
   \<and> (\<exists>m t. call_tool (stub_env (response_of two_images)) (generate_image (prompt_only ''a kite'')) =
         (\<lparr>content = [ImageContent ''Qg=='' m, TextContent t], isError = None\<rparr>,
          [GenerateContent (generate_call (prompt_only ''a kite''))]))"
  using last_inline_part_wins
          [of "image_part ''QQ=='' (Some ''image/png'')"
              "\<lparr>blob_data = ''QQ=='', blob_mimeType = Some ''image/png''\<rparr>"
              "image_part ''Qg=='' (Some ''image/jpeg'')"
              "\<lparr>blob_data = ''Qg=='', blob_mimeType = Some ''image/jpeg''\<rparr>"
              "[text_part ''Two drafts: '']" "[text_part ''and '']" "[text_part ''done'']"
              two_images "stub_env (response_of two_images)" "prompt_only ''a kite''"
              "response_of two_images"]
  by (simp add: two_images_def stub_env_def response_of_def image_part_def text_part_def
                prompt_only_def first_parts_def all_text_def text_of_def generate_call_def
                with_default_def DEFAULT_MODEL_def MODELS_PRO_def Let_def)

text \<open>
  C6. When the upstream response has no candidates (the list is missing or empty),
  reading it fails with \<open>No response generated\<close>, and both \<open>generate_image\<close> and
  \<open>edit_image\<close> return the result with \<open>isError\<close> true whose content is the single
  text part \<open>Error: No response generated\<close>; nothing is written.
\<close>

theorem no_candidates_gives_error_result:
  assumes "candidates response = None \<or> candidates response = Some []"
  shows "first_parts response = Inl (Error ''No response generated'')
       \<and> (getGenerativeModel e (call_model (generate_call gp)) (call_config (generate_call gp)) = None
            \<and> generateContent e (generate_call gp) = Inr response \<longrightarrow>
            call_tool e (generate_image gp) =
              (\<lparr>content = [TextContent ''Error: No response generated''], isError = Some True\<rparr>,
               [GenerateContent (generate_call gp)]))
       \<and> (getGenerativeModel e (call_model (edit_call ep)) (call_config (edit_call ep)) = None
            \<and> generateContent e (edit_call ep) = Inr response \<longrightarrow>
            call_tool e (edit_image ep) =
              (\<lparr>content = [TextContent ''Error: No response generated''], isError = Some True\<rparr>,
               [GenerateContent (edit_call ep)]))"
proof -
  have thrown: "first_parts response = Inl (Error ''No response generated'')"
    using assms by (rule first_parts_no_candidates)
  have gen: "call_tool e (generate_image gp) =
              (\<lparr>content = [TextContent ''Error: No response generated''], isError = Some True\<rparr>,
               [GenerateContent (generate_call gp)])"
    if "getGenerativeModel e (call_model (generate_call gp)) (call_config (generate_call gp)) = None"
      and "generateContent e (generate_call gp) = Inr response"
    using call_tool_generate_returned [OF that generate_finish_first_parts_thrown [OF thrown]]
    by (simp add: error_result_def)
  have edit: "call_tool e (edit_image ep) =
              (\<lparr>content = [TextContent ''Error: No response generated''], isError = Some True\<rparr>,
               [GenerateContent (edit_call ep)])"
    if "getGenerativeModel e (call_model (edit_call ep)) (call_config (edit_call ep)) = None"
      and "generateContent e (edit_call ep) = Inr response"
    using call_tool_edit_returned [OF that edit_finish_first_parts_thrown [OF thrown]]
    by (simp add: error_result_def)
  from thrown gen edit show ?thesis by blast
qed

theorem no_candidates_gives_error_result_witness:
  "(candidates \<lparr>candidates = Some []\<rparr> = None \<or> candidates \<lparr>candidates = Some []\<rparr> = Some [])
   \<and> getGenerativeModel (stub_env \<lparr>candidates = Some []\<rparr>)
        (call_model (generate_call (prompt_only ''a kite'')))
        (call_config (generate_call (prompt_only ''a kite''))) = None
   \<and> generateContent (stub_env \<lparr>candidates = Some []\<rparr>) (generate_call (prompt_only ''a kite''))
       = Inr \<lparr>candidates = Some []\<rparr>
   \<and> call_tool (stub_env \<lparr>candidates = Some []\<rparr>) (generate_image (prompt_only ''a kite'')) =
       (\<lparr>content = [TextContent ''Error: No response generated''], isError = Some True\<rparr>,
        [GenerateContent (generate_call (prompt_only ''a kite''))])
   \<and> getGenerativeModel (stub_env \<lparr>candidates = Some []\<rparr>)
        (call_model (edit_call (edit_of ''make it blue'' [sample_image] None)))
        (call_config (edit_call (edit_of ''make it blue'' [sample_image] None))) = None
   \<and> generateContent (stub_env \<lparr>candidates = Some []\<rparr>)
        (edit_call (edit_of ''make it blue'' [sample_image] None))
       = Inr \<lparr>candidates = Some []\<rparr>
   \<and> call_tool (stub_env \<lparr>candidates = Some []\<rparr>)
        (edit_image (edit_of ''make it blue'' [sample_image] None)) =
       (\<lparr>content = [TextContent ''Error: No response generated''], isError = Some True\<rparr>,
        [GenerateContent (edit_call (edit_of ''make it blue'' [sample_image] None))])"
  using no_candidates_gives_error_result
          [of "\<lparr>candidates = Some []\<rparr>" "stub_env \<lparr>candidates = Some []\<rparr>"
              "prompt_only ''a kite''" "edit_of ''make it blue'' [sample_image] None"]
  by (simp add: stub_env_def prompt_only_def edit_of_def generate_call_def edit_call_def
        with_default_def DEFAULT_MODEL_def MODELS_PRO_def Let_def)

text \<open>
  C7. For a \<open>generate_image\<close> call that supplies a prompt and nothing else, the model
  object is built with the model \<open>gemini-3-pro-image-preview\<close> (the default, the PRO
  entry of the model table) and with the aspect ratio \<open>1:1\<close> and the image size \<open>1K\<close>,
  both in the nested image configuration; unless building it throws, the upstream is
  invoked once, on that model and configuration, with the prompt as the only content
  part, and it is not invoked otherwise.
\<close>

theorem generate_image_defaults:
  "generate_call (prompt_only x) =
     \<lparr>call_model = MODELS_PRO,
      call_config = Some \<lparr>responseModalities = [''IMAGE'', ''TEXT''],
                          imageConfig = Some \<lparr>ic_aspectRatio = Some ''1:1'', ic_imageSize = ''1K''\<rparr>,
                          cfg_aspectRatio = None\<rparr>,
      call_parts = [TextPart x]\<rparr>
   \<and> upstream_calls (snd (call_tool e (generate_image (prompt_only x))))
       = (case getGenerativeModel e MODELS_PRO
                 (Some \<lparr>responseModalities = [''IMAGE'', ''TEXT''],
                        imageConfig = Some \<lparr>ic_aspectRatio = Some ''1:1'', ic_imageSize = ''1K''\<rparr>,
                        cfg_aspectRatio = None\<rparr>) of
            None \<Rightarrow> [generate_call (prompt_only x)]
          | Some err \<Rightarrow> [])
   \<and> DEFAULT_MODEL = MODELS_PRO
   \<and> MODELS_PRO = ''gemini-3-pro-image-preview''"
proof -
  have call: "generate_call (prompt_only x) =
     \<lparr>call_model = MODELS_PRO,
      call_config = Some \<lparr>responseModalities = [''IMAGE'', ''TEXT''],
                          imageConfig = Some \<lparr>ic_aspectRatio = Some ''1:1'', ic_imageSize = ''1K''\<rparr>,
                          cfg_aspectRatio = None\<rparr>,
      call_parts = [TextPart x]\<rparr>"
    by (simp add: generate_call_def prompt_only_def with_default_def DEFAULT_MODEL_def
                generate_config_def generate_parts_def)
  have "upstream_calls (snd (call_tool e (generate_image (prompt_only x))))
       = (case getGenerativeModel e (call_model (generate_call (prompt_only x)))
                 (call_config (generate_call (prompt_only x))) of
            None \<Rightarrow> [generate_call (prompt_only x)]
          | Some err \<Rightarrow> [])"
    by (rule upstream_calls_generate)
  then have "upstream_calls (snd (call_tool e (generate_image (prompt_only x))))
       = (case getGenerativeModel e MODELS_PRO
                 (Some \<lparr>responseModalities = [''IMAGE'', ''TEXT''],
                        imageConfig = Some \<lparr>ic_aspectRatio = Some ''1:1'', ic_imageSize = ''1K''\<rparr>,
                        cfg_aspectRatio = None\<rparr>) of
            None \<Rightarrow> [generate_call (prompt_only x)]
          | Some err \<Rightarrow> [])"
    unfolding call [THEN arg_cong, of call_model] call [THEN arg_cong, of call_config]
    by simp
  with call show ?thesis
    by (simp add: DEFAULT_MODEL_def MODELS_PRO_def)
qed

text \<open>
  C8. For \<open>generate_image\<close> and for \<open>edit_image\<close>, the content sequence handed to the
  upstream is the supplied images (\<open>referenceImages\<close>, none when the field is missing,
  or \<open>images\<close>), each as an inline part with its own MIME type and data, in their
  original order, followed by one text part with the prompt as the last element. The
  upstream is invoked with that sequence once, unless building the model object
  throws, and then it is not invoked at all.
\<close>

theorem content_parts_keep_order:
  "call_parts (generate_call gp) =
       map (\<lambda>img. InlineDataPart (img_mimeType img) (img_data img))
           (case gen_referenceImages gp of None \<Rightarrow> [] | Some imgs \<Rightarrow> imgs)
         @ [TextPart (gen_prompt gp)]
   \<and> upstream_calls (snd (call_tool e (generate_image gp))) =
       (case getGenerativeModel e (call_model (generate_call gp)) (call_config (generate_call gp)) of
          None \<Rightarrow> [generate_call gp]
        | Some err \<Rightarrow> [])
   \<and> call_parts (edit_call ep) =
       map (\<lambda>img. InlineDataPart (img_mimeType img) (img_data img)) (edit_images ep)
         @ [TextPart (edit_prompt ep)]
   \<and> upstream_calls (snd (call_tool e (edit_image ep))) =
       (case getGenerativeModel e (call_model (edit_call ep)) (call_config (edit_call ep)) of
          None \<Rightarrow> [edit_call ep]
        | Some err \<Rightarrow> [])"
  using upstream_calls_generate [of e gp] upstream_calls_edit [of e ep]
    call_parts_generate [of gp] call_parts_edit [of ep]
  by simp



text \<open>
  C10, as stated. With a JPEG inline part followed by an inline part without MIME type,
  the last inline part that supplied a MIME type is the first one, with \<open>image/jpeg\<close>,
  but both tools return the image of the second part with \<open>image/png\<close>: each inline
  part overwrites the running MIME type, with the default when it has none.
\<close>

theorem mimeType_of_earlier_part_counterexample:
  "last_supplied_mimeType jpeg_then_bare = ''image/jpeg''
   \<and> call_tool (stub_env (response_of jpeg_then_bare)) (generate_image (prompt_only ''a kite''))
     = (\<lparr>content = [ImageContent ''Qg=='' ''image/png'',
                    TextContent ''Image generated successfully (1K)''],
         isError = None\<rparr>,
        [GenerateContent (generate_call (prompt_only ''a kite''))])
   \<and> call_tool (stub_env (response_of jpeg_then_bare))
        (edit_image (edit_of ''make it blue'' [sample_image] None))
     = (\<lparr>content = [ImageContent ''Qg=='' ''image/png'',
                    TextContent ''Image edited successfully (1K)''],
         isError = None\<rparr>,
        [GenerateContent (edit_call (edit_of ''make it blue'' [sample_image] None))])"
  by (simp add: jpeg_then_bare_def last_supplied_mimeType_def supplied_mimeType_def
        stub_env_def response_of_def image_part_def prompt_only_def
        edit_of_def call_tool_def dispatch_def generateImage_def editImage_def
        generate_finish_def edit_finish_def first_parts_def generate_scan_def edit_scan_def
        generate_step_def take_inline_def take_text_def scan_init_def usable_def truthy_def
        or_default_def with_default_def save_image_def generate_status_def edit_status_def
        Let_def generate_call_def edit_call_def DEFAULT_MODEL_def MODELS_PRO_def)

text \<open>
  C10, amended. When \<open>generate_image\<close> or \<open>edit_image\<close> succeeds, the response has a
  last inline part, the image of the result is its data, and the MIME type of the result
  is the MIME type of that part when it has a non-empty one and \<open>image/png\<close> otherwise,
  whatever MIME types earlier inline parts supplied.
\<close>

theorem returned_mimeType_is_of_last_inline_part:
  assumes "first_parts response = Inr ps"
  shows "(getGenerativeModel e (call_model (generate_call gp)) (call_config (generate_call gp)) = None
            \<and> generateContent e (generate_call gp) = Inr response
            \<and> dispatch e (generate_image gp) = (Inr result, fx) \<longrightarrow>
          (\<exists>d t. last_inline ps = Some d
             \<and> content result =
                 [ImageContent (blob_data d) (or_default (blob_mimeType d) ''image/png''),
                  TextContent t]))
       \<and> (getGenerativeModel e (call_model (edit_call ep)) (call_config (edit_call ep)) = None
            \<and> generateContent e (edit_call ep) = Inr response
            \<and> dispatch e (edit_image ep) = (Inr result', fx') \<longrightarrow>
          (\<exists>d t. last_inline ps = Some d
             \<and> content result' =
                 [ImageContent (blob_data d) (or_default (blob_mimeType d) ''image/png''),
                  TextContent t]))"
proof (intro conjI impI; elim conjE)
  assume built: "getGenerativeModel e (call_model (generate_call gp)) (call_config (generate_call gp)) = None"
    and up: "generateContent e (generate_call gp) = Inr response"
    and res: "dispatch e (generate_image gp) = (Inr result, fx)"
  from res have "generate_finish e gp response = (Inr result, snd (generate_finish e gp response))"
    by (simp add: dispatch_generate generateImage_returned [OF built up] prod_eq_iff)
  with assms show "\<exists>d t. last_inline ps = Some d
             \<and> content result =
                 [ImageContent (blob_data d) (or_default (blob_mimeType d) ''image/png''),
                  TextContent t]"
    by (rule generate_finish_success)
next
  assume built: "getGenerativeModel e (call_model (edit_call ep)) (call_config (edit_call ep)) = None"
    and up: "generateContent e (edit_call ep) = Inr response"
    and res: "dispatch e (edit_image ep) = (Inr result', fx')"
  from res have "edit_finish e ep response = (Inr result', snd (edit_finish e ep response))"
    by (simp add: dispatch_edit editImage_returned [OF built up] prod_eq_iff)
  with assms show "\<exists>d t. last_inline ps = Some d
             \<and> content result' =
                 [ImageContent (blob_data d) (or_default (blob_mimeType d) ''image/png''),
                  TextContent t]"
    by (rule edit_finish_success)
qed

theorem returned_mimeType_is_of_last_inline_part_witness:
  "first_parts (response_of jpeg_then_bare) = Inr jpeg_then_bare
   \<and> getGenerativeModel (stub_env (response_of jpeg_then_bare))
        (call_model (generate_call (prompt_only ''a kite'')))
        (call_config (generate_call (prompt_only ''a kite''))) = None
   \<and> generateContent (stub_env (response_of jpeg_then_bare)) (generate_call (prompt_only ''a kite''))
       = Inr (response_of jpeg_then_bare)
   \<and> dispatch (stub_env (response_of jpeg_then_bare)) (generate_image (prompt_only ''a kite''))
       = (Inr \<lparr>content = [ImageContent ''Qg=='' ''image/png'',
                          TextContent ''Image generated successfully (1K)''],
               isError = None\<rparr>,
          [GenerateContent (generate_call (prompt_only ''a kite''))])
   \<and> getGenerativeModel (stub_env (response_of jpeg_then_bare))
        (call_model (edit_call (edit_of ''make it blue'' [sample_image] None)))
        (call_config (edit_call (edit_of ''make it blue'' [sample_image] None))) = None
   \<and> generateContent (stub_env (response_of jpeg_then_bare))
        (edit_call (edit_of ''make it blue'' [sample_image] None))
       = Inr (response_of jpeg_then_bare)
   \<and> dispatch (stub_env (response_of jpeg_then_bare))
        (edit_image (edit_of ''make it blue'' [sample_image] None))
       = (Inr \<lparr>content = [ImageContent ''Qg=='' ''image/png'',
                          TextContent ''Image edited successfully (1K)''],
               isError = None\<rparr>,
          [GenerateContent (edit_call (edit_of ''make it blue'' [sample_image] None))])
   \<and> last_inline jpeg_then_bare = Some \<lparr>blob_data = ''Qg=='', blob_mimeType = None\<rparr>
   \<and> or_default (blob_mimeType \<lparr>blob_data = ''Qg=='', blob_mimeType = None\<rparr>) ''image/png''
       = ''image/png''"
  using returned_mimeType_is_of_last_inline_part
          [of "response_of jpeg_then_bare" jpeg_then_bare "stub_env (response_of jpeg_then_bare)"
              "prompt_only ''a kite''"
              "\<lparr>content = [ImageContent ''Qg=='' ''image/png'',
                           TextContent ''Image generated successfully (1K)''],
                isError = None\<rparr>"
              "[GenerateContent (generate_call (prompt_only ''a kite''))]"
              "edit_of ''make it blue'' [sample_image] None"
              "\<lparr>content = [ImageContent ''Qg=='' ''image/png'',
                           TextContent ''Image edited successfully (1K)''],
                isError = None\<rparr>"
              "[GenerateContent (edit_call (edit_of ''make it blue'' [sample_image] None))]"]
  by (simp add: jpeg_then_bare_def stub_env_def response_of_def image_part_def prompt_only_def
        edit_of_def dispatch_def generateImage_def editImage_def
        generate_finish_def edit_finish_def first_parts_def generate_scan_def edit_scan_def
        generate_step_def take_inline_def take_text_def scan_init_def usable_def truthy_def
        or_default_def with_default_def save_image_def generate_status_def edit_status_def
        Let_def generate_call_def edit_call_def DEFAULT_MODEL_def MODELS_PRO_def)

end
